theory Spec2Isabelle
  imports Main "HOL-Library.Word"
begin

section \<open>Data model\<close>

type_synonym byte = "8 word"

text \<open>\<open>ids.ID\<close> is an array of bytes; \<open>ids.Empty\<close> is the all-zero identity.\<close>

type_synonym ID = "byte list"

definition ids_Empty :: ID where
  "ids_Empty = replicate 32 0"

text \<open>
  Modelled from the spec: the constant \<open>dataLen\<close> is used by \<open>virtualMachine.go\<close> and
  \<open>service.go\<close> but declared in neither; a block's payload is a fixed 32 bytes. The
  source leaves no other value: \<open>proposeBlock\<close> appends a \<open>[dataLen]byte\<close> to the mempool,
  a \<open>[][32]byte\<close>.
\<close>

definition dataLen :: nat where
  "dataLen = 32"

text \<open>
  Errors as values. \<open>errors_New msg\<close> is an error made in place by \<open>errors.New(msg)\<close>;
  \<open>errBadData\<close> is the package-level error value that \<open>service.go\<close> returns (its
  declaration is outside the three files); \<open>Foreign msg\<close> is an error handed back by one
  of the external collaborators (embedded core, codec, database, formatter) and
  propagated unchanged, \<open>msg\<close> being what the collaborator reports.
\<close>

datatype error = errors_New string | errBadData | Foreign string

text \<open>
  Modelled from the spec: the status of a block is kept by the embedded \<open>core.Block\<close>,
  which is outside the repository. The spec names four states.
\<close>

datatype Status = Unverified | Verified | Accepted | Rejected

text \<open>
  \<open>Block\<close> of \<open>block.go\<close>: the embedded \<open>*core.Block\<close> contributes the parent identity,
  the block's own identity, its byte representation and its status; \<open>Data\<close> is the
  \<open>[32]byte\<close> payload and \<open>Timestamp\<close> the \<open>int64\<close> Unix time.
\<close>

record Block =
  PrntID :: ID
  ID :: ID
  Bytes :: "byte list"
  status :: Status
  Data :: "byte list"
  Timestamp :: "64 word"

subsection \<open>The persistence boundary\<close>

text \<open>
  Modelled from the spec: the database behind \<open>vm.DB\<close> is external. It is a key-value
  store with \<open>get\<close>, \<open>put\<close> and an explicit \<open>commit\<close>: a \<open>put\<close> lands in the
  \<open>pending\<close> layer, \<open>commit\<close> flushes the pending layer into the \<open>durable\<close> one, and a
  \<open>get\<close> reads through both. The store holds the blocks and the status of a block,
  each under the block's identity, the identity of the last accepted block, and the
  flag that marks the database as initialised.
\<close>

datatype key = BlockKey ID | StatusKey ID | LastAcceptedKey | InitializedKey

datatype val = BlockVal Block | StatusVal Status | IDVal ID | FlagVal

record Database =
  pending :: "key \<rightharpoonup> val"
  durable :: "key \<rightharpoonup> val"

definition db_get :: "Database \<Rightarrow> key \<Rightarrow> val option" where
  "db_get db k = (case pending db k of Some v \<Rightarrow> Some v | None \<Rightarrow> durable db k)"

definition db_put :: "Database \<Rightarrow> key \<Rightarrow> val \<Rightarrow> Database" where
  "db_put db k v = db\<lparr>pending := (pending db)(k \<mapsto> v)\<rparr>"

definition db_commit :: "Database \<Rightarrow> Database" where
  "db_commit db = db\<lparr>durable := durable db ++ pending db, pending := Map.empty\<rparr>"

subsection \<open>The environment\<close>

text \<open>
  What the external collaborators answer is a parameter of every operation; a failure
  is given by the message the collaborator reports:
  \<^item> \<open>codec_Marshal\<close>: the codec's \<open>Marshal\<close>, which may fail;
  \<^item> \<open>ComputeID\<close>: how the embedded core derives a block's identity from its bytes;
  \<^item> \<open>core_Initialize_err\<close>: the failure of \<open>SnowmanVM.Initialize\<close>, if any;
  \<^item> \<open>core_Verify_err\<close>: the failure of the embedded \<open>core.Block.Verify\<close>, if any;
  \<^item> \<open>put_err\<close>: the failure of the write of \<open>SaveBlock\<close> under a key, if any;
  \<^item> \<open>commit_err\<close>: the failure of \<open>DB.Commit\<close>, if any;
  \<^item> \<open>CB58_FromString\<close>: the checksummed base-58 decoder of the formatting package.
\<close>

record env =
  codec_Marshal :: "Block \<Rightarrow> string + byte list"
  ComputeID :: "byte list \<Rightarrow> ID"
  core_Initialize_err :: "string option"
  core_Verify_err :: "Block \<Rightarrow> string option"
  put_err :: "key \<Rightarrow> string option"
  commit_err :: "string option"
  CB58_FromString :: "string \<Rightarrow> string + byte list"

subsection \<open>The virtual machine\<close>

text \<open>
  \<open>VM\<close> of \<open>virtualMachine.go\<close>. The embedded \<open>core.SnowmanVM\<close> contributes the
  database handle \<open>DB\<close>, the chain-state fields \<open>lastAccepted\<close> and \<open>preferred\<close>, and
  the channel to the consensus engine; \<open>toEngine\<close> counts the calls of
  \<open>NotifyBlockReady\<close>. The codec is part of the environment.
\<close>

record VM =
  DB :: Database
  lastAccepted :: ID
  preferred :: ID
  mempool :: "byte list list"
  toEngine :: nat

section \<open>Operations of the embedded core\<close>

text \<open>
  The operations of this section belong to the embedded \<open>core\<close> package of the
  consensus library, which is outside the repository. Each is modelled from the comment
  at its call site in the three files, with its failure a parameter of the environment.

  \<open>core.Block.Verify\<close>: the comment at its call site in \<open>Verify\<close> says that it returns
  an error if there is one while checking, and otherwise whether the block is accepted.
\<close>

definition core_Block_Verify :: "env \<Rightarrow> Block \<Rightarrow> bool \<times> error option" where
  "core_Block_Verify e b =
     (case core_Verify_err e b of
        Some msg \<Rightarrow> (False, Some (Foreign msg))
      | None \<Rightarrow> (status b = Accepted, None))"

text \<open>
  \<open>core.Block.Initialize\<close>: \<open>NewBlock\<close> initialises the block "by providing it with its
  byte representation"; the identity is derived from those bytes.
\<close>

definition core_Block_Initialize :: "env \<Rightarrow> byte list \<Rightarrow> Block \<Rightarrow> Block" where
  "core_Block_Initialize e bs b = b\<lparr>ID := ComputeID e bs, Bytes := bs\<rparr>"

text \<open>
  \<open>SaveBlock\<close> persists the block to the database, under the block's own identity, and
  \<open>Commit\<close> flushes the database's contents; each returns an error when the database
  reports one.
\<close>

definition SaveBlock :: "env \<Rightarrow> Database \<Rightarrow> Block \<Rightarrow> error option \<times> Database" where
  "SaveBlock e db b =
     (case put_err e (BlockKey (ID b)) of
        Some msg \<Rightarrow> (Some (Foreign msg), db)
      | None \<Rightarrow> (None, db_put db (BlockKey (ID b)) (BlockVal b)))"

definition Commit :: "env \<Rightarrow> Database \<Rightarrow> error option \<times> Database" where
  "Commit e db =
     (case commit_err e of
        Some msg \<Rightarrow> (Some (Foreign msg), db)
      | None \<Rightarrow> (None, db_commit db))"

text \<open>
  \<open>GetBlock\<close> is the identity lookup in the database; \<open>Parent\<close> looks up the block's
  parent, and the type assertion \<open>.(*Block)\<close> of \<open>Verify\<close> fails when no block of the
  chain's type is found.
\<close>

definition GetBlock :: "VM \<Rightarrow> ID \<Rightarrow> Block option" where
  "GetBlock vm i =
     (case db_get (DB vm) (BlockKey i) of
        Some (BlockVal b) \<Rightarrow> Some b
      | _ \<Rightarrow> None)"

definition Parent :: "VM \<Rightarrow> Block \<Rightarrow> Block option" where
  "Parent vm b = GetBlock vm (PrntID b)"

text \<open>
  \<open>DBInitialized\<close> reads the flag that marks the database as initialised and
  \<open>SetDBInitialized\<close> writes it.
\<close>

definition DBInitialized :: "VM \<Rightarrow> bool" where
  "DBInitialized vm = (db_get (DB vm) InitializedKey \<noteq> None)"

definition SetDBInitialized :: "VM \<Rightarrow> VM" where
  "SetDBInitialized vm = vm\<lparr>DB := db_put (DB vm) InitializedKey FlagVal\<rparr>"

text \<open>
  \<open>GetStatus\<close> reads the status that the database records for a block, and
  \<open>GetLastAccepted\<close> the identity of the last accepted block; the latter fails with
  the database's not-found error when there is no such record.
\<close>

definition GetStatus :: "VM \<Rightarrow> ID \<Rightarrow> Status option" where
  "GetStatus vm i =
     (case db_get (DB vm) (StatusKey i) of
        Some (StatusVal st) \<Rightarrow> Some st
      | _ \<Rightarrow> None)"

definition errNotFound :: error where
  "errNotFound = Foreign ''not found''"

definition GetLastAccepted :: "Database \<Rightarrow> error + ID" where
  "GetLastAccepted db =
     (case db_get db LastAcceptedKey of
        Some (IDVal i) \<Rightarrow> Inr i
      | _ \<Rightarrow> Inl errNotFound)"

text \<open>
  \<open>core.Block.Accept\<close> marks the block Accepted, records that status and the block as
  the last accepted one in the database, and sets \<open>vm.lastAccepted\<close> to the block's
  identity. It does not assign \<open>vm.preferred\<close>, although the comment at its call site in
  \<open>Initialize\<close> says that it sets both fields. The call site uses no result of
  \<open>Accept\<close>; its two writes are taken to succeed.
\<close>

definition Accept :: "VM \<Rightarrow> Block \<Rightarrow> VM" where
  "Accept vm b =
     vm\<lparr>DB := db_put (db_put (DB vm) (StatusKey (ID b)) (StatusVal Accepted))
                  LastAcceptedKey (IDVal (ID b)),
        lastAccepted := ID b\<rparr>"

text \<open>
  \<open>SnowmanVM.Initialize\<close> fails with the core's error, or installs the database handle
  it is given as \<open>vm.DB\<close> (\<open>Initialize\<close>: "vm.DB is the database, and was set when we
  initialized the embedded SnowmanVM"). When that database is marked as initialised the
  chain "pulls state from the database rather than starting over from genesis":
  \<open>lastAccepted\<close> is read from the database, \<open>preferred\<close> is set to it, and a missing
  record is an error.
\<close>

definition SnowmanVM_Initialize :: "env \<Rightarrow> Database \<Rightarrow> VM \<Rightarrow> error option \<times> VM" where
  "SnowmanVM_Initialize e db vm =
     (case core_Initialize_err e of
        Some msg \<Rightarrow> (Some (Foreign msg), vm)
      | None \<Rightarrow>
          let vm1 = vm\<lparr>DB := db\<rparr> in
          if DBInitialized vm1 then
            (case GetLastAccepted (DB vm1) of
               Inl err \<Rightarrow> (Some err, vm1)
             | Inr i \<Rightarrow> (None, vm1\<lparr>lastAccepted := i, preferred := i\<rparr>))
          else (None, vm1))"

text \<open>
  The codec's \<open>Marshal\<close> and the formatter's \<open>CB58.FromString\<close> (which leaves the
  decoded bytes in \<open>byteFormatter.Bytes\<close>), each with its failure as an error value.
\<close>

definition Marshal :: "env \<Rightarrow> Block \<Rightarrow> error + byte list" where
  "Marshal e b =
     (case codec_Marshal e b of
        Inl msg \<Rightarrow> Inl (Foreign msg)
      | Inr bs \<Rightarrow> Inr bs)"

definition FromString :: "env \<Rightarrow> string \<Rightarrow> error + byte list" where
  "FromString e s =
     (case CB58_FromString e s of
        Inl msg \<Rightarrow> Inl (Foreign msg)
      | Inr bs \<Rightarrow> Inr bs)"

text \<open>
  \<open>NotifyBlockReady\<close> notifies the consensus engine that a block is ready; the model
  counts the notifications.
\<close>

definition NotifyBlockReady :: "VM \<Rightarrow> VM" where
  "NotifyBlockReady vm = vm\<lparr>toEngine := Suc (toEngine vm)\<rparr>"

section \<open>\<open>virtualMachine.go\<close>\<close>

text \<open>
  Go's \<open>copy(dst[:], src)\<close> into a zeroed array of \<open>n\<close> bytes: the first
  \<open>min n (length src)\<close> bytes of \<open>src\<close> go to the front, the rest stays zero.
\<close>

definition copy_into_array :: "nat \<Rightarrow> byte list \<Rightarrow> byte list" where
  "copy_into_array n src = take n src @ replicate (n - length src) 0"

text \<open>
  \<open>NewBlock\<close>. A \<open>time.Time\<close> is represented by what \<open>Unix()\<close> returns for it, an
  \<open>int64\<close> count of seconds, since that is all the code reads of a time.
\<close>

definition NewBlock :: "env \<Rightarrow> ID \<Rightarrow> byte list \<Rightarrow> 64 word \<Rightarrow> error + Block" where
  "NewBlock e parentID data timestamp =
     (let block = \<lparr>PrntID = parentID, ID = ids_Empty, Bytes = [], status = Unverified,
                   Data = data, Timestamp = timestamp\<rparr>
      in (case Marshal e block of
            Inl err \<Rightarrow> Inl err
          | Inr blockBytes \<Rightarrow> Inr (core_Block_Initialize e blockBytes block)))"

text \<open>
  \<open>Initialize\<close>. The context, the channel and the unused last parameter carry nothing
  the function reads; \<open>db\<close> is the database handle and \<open>genesisData\<close> the byte slice.
  The assignment to \<open>vm.codec\<close> has no counterpart, the codec being part of the
  environment. The genesis timestamp \<open>time.Unix(0, 0)\<close> is 0.
\<close>

definition Initialize :: "env \<Rightarrow> Database \<Rightarrow> byte list \<Rightarrow> VM \<Rightarrow> error option \<times> VM" where
  "Initialize e db genesisData vm =
     (case SnowmanVM_Initialize e db vm of
        (Some err, vm1) \<Rightarrow> (Some err, vm1)
      | (None, vm1) \<Rightarrow>
          if \<not> DBInitialized vm1 then
            if length genesisData > 32 then
              (Some (errors_New ''genesis data should be bytes (max length 32)''), vm1)
            else
              let genesisDataArr = copy_into_array dataLen genesisData in
              (case NewBlock e ids_Empty genesisDataArr 0 of
                 Inl err \<Rightarrow> (Some err, vm1)
               | Inr genesisBlock \<Rightarrow>
                   (case SaveBlock e (DB vm1) genesisBlock of
                      (Some err, db1) \<Rightarrow> (Some err, vm1\<lparr>DB := db1\<rparr>)
                    | (None, db1) \<Rightarrow>
                        let vm2 = Accept (vm1\<lparr>DB := db1\<rparr>) genesisBlock;
                            vm3 = SetDBInitialized vm2
                        in (case Commit e (DB vm3) of
                              (Some err, db2) \<Rightarrow> (Some err, vm3\<lparr>DB := db2\<rparr>)
                            | (None, db2) \<Rightarrow> (None, vm3\<lparr>DB := db2\<rparr>))))
          else (None, vm1))"

definition proposeBlock :: "byte list \<Rightarrow> VM \<Rightarrow> VM" where
  "proposeBlock data vm = NotifyBlockReady (vm\<lparr>mempool := mempool vm @ [data]\<rparr>)"

text \<open>
  \<open>BuildBlock\<close>; \<open>now\<close> is the reading of \<open>time.Now()\<close>. The deferred
  \<open>NotifyBlockReady\<close> runs on every return after the pop, also when \<open>NewBlock\<close> fails.
\<close>

definition BuildBlock :: "env \<Rightarrow> 64 word \<Rightarrow> VM \<Rightarrow> (error + Block) \<times> VM" where
  "BuildBlock e now vm =
     (case mempool vm of
        [] \<Rightarrow> (Inl (errors_New ''there is no block to propose''), vm)
      | v # rest \<Rightarrow>
          let vm1 = vm\<lparr>mempool := rest\<rparr>;
              deferred = (if length (mempool vm1) > 0 then NotifyBlockReady else (\<lambda>x. x))
          in (case NewBlock e (preferred vm1) v now of
                Inl err \<Rightarrow> (Inl err, deferred vm1)
              | Inr block \<Rightarrow> (Inr block, deferred vm1)))"

section \<open>\<open>block.go\<close>\<close>

text \<open>
  \<open>Verify\<close>; \<open>now\<close> is the reading of \<open>time.Now()\<close> in seconds, so that
  \<open>time.Now().Add(time.Hour).Unix()\<close> is \<open>now + 3600\<close>, and
  \<open>time.Unix(parent.Timestamp, 0).Unix()\<close> is \<open>parent.Timestamp\<close>. The comparisons are
  those of \<open>int64\<close>. The result of \<open>SaveBlock\<close> is dropped, as in the source. Both
  timestamp checks return an error with the same message, \<open>msg_hour_ahead\<close> (the
  apostrophe of the message is the character \<open>0x27\<close>).
\<close>

definition msg_hour_ahead :: string where
  "msg_hour_ahead =
     ''block'' @ [CHR 0x27] @ ''s timestamp is more than 1 hour ahead of local time''"

definition Verify :: "env \<Rightarrow> 64 word \<Rightarrow> Block \<Rightarrow> VM \<Rightarrow> error option \<times> VM" where
  "Verify e now b vm =
     (case core_Block_Verify e b of
        (accepted, err) \<Rightarrow>
          if err \<noteq> None \<or> accepted then (err, vm)
          else
            (case Parent vm b of
               None \<Rightarrow> (Some (errors_New ''error while retrieving block from database''), vm)
             | Some parent \<Rightarrow>
                 if sint (Timestamp b) < sint (Timestamp parent) then
                   (Some (errors_New msg_hour_ahead), vm)
                 else if sint (Timestamp b) \<ge> sint (now + 3600) then
                   (Some (errors_New msg_hour_ahead), vm)
                 else
                   (case SaveBlock e (DB vm) b of
                      (ignored, db1) \<Rightarrow>
                        (case Commit e db1 of
                           (err2, db2) \<Rightarrow> (err2, vm\<lparr>DB := db2\<rparr>)))))"

section \<open>\<open>service.go\<close>\<close>

text \<open>
  \<open>ProposeBlock\<close> of the API service: \<open>args_Data\<close> is \<open>args.Data\<close>, \<open>reply_Success\<close>
  the field of the reply as the caller passed it; the result is the error, the reply's
  field and the machine.
\<close>

definition ProposeBlock :: "env \<Rightarrow> string \<Rightarrow> bool \<Rightarrow> VM \<Rightarrow> error option \<times> bool \<times> VM" where
  "ProposeBlock e args_Data reply_Success vm =
     (case FromString e args_Data of
        Inl err \<Rightarrow> (Some errBadData, reply_Success, vm)
      | Inr dataSlice \<Rightarrow>
          if length dataSlice \<noteq> 32 then (Some errBadData, reply_Success, vm)
          else
            let data = copy_into_array dataLen (take dataLen dataSlice)
            in (None, True, proposeBlock data vm))"

section \<open>Sample inputs\<close>

text \<open>
  A sample environment in which no collaborator fails, with a toy codec, a toy
  identity function (the number of bytes, then the last 31 bytes in reverse) and a toy
  decoder (which rejects a string containing \<open>!\<close>), and a
  machine whose database durably holds one accepted block with timestamp 10. The
  closed theorems below evaluate the operations on them.
\<close>

definition sample_env :: env where
  "sample_env =
     \<lparr>codec_Marshal = (\<lambda>b. Inr (PrntID b @ Data b @ [ucast (Timestamp b)])),
      ComputeID = (\<lambda>bs. of_nat (length bs) # take 31 (rev bs)),
      core_Initialize_err = None,
      core_Verify_err = (\<lambda>b. None),
      put_err = (\<lambda>k. None),
      commit_err = None,
      CB58_FromString =
        (\<lambda>s. if CHR ''!'' \<in> set s then Inl ''bad checksum''
             else Inr (map (\<lambda>c. of_nat (of_char c)) s))\<rparr>"

text \<open>The same environment with a database whose writes fail.\<close>

definition failing_put_env :: env where
  "failing_put_env = sample_env\<lparr>put_err := (\<lambda>k. Some ''disk full'')\<rparr>"

definition sample_parent :: Block where
  "sample_parent =
     \<lparr>PrntID = ids_Empty, ID = [1], Bytes = [], status = Accepted,
      Data = replicate 32 0, Timestamp = 10\<rparr>"

definition sample_child :: "64 word \<Rightarrow> Block" where
  "sample_child ts =
     \<lparr>PrntID = [1], ID = [2], Bytes = [], status = Unverified,
      Data = replicate 32 7, Timestamp = ts\<rparr>"

definition sample_vm :: VM where
  "sample_vm =
     \<lparr>DB = \<lparr>pending = Map.empty, durable = [BlockKey [1] \<mapsto> BlockVal sample_parent]\<rparr>,
      lastAccepted = [1], preferred = [1], mempool = [], toEngine = 0\<rparr>"

text \<open>
  A machine that has not started yet, a database that holds nothing, a database that
  is initialised with the sample block as the last accepted one, and a machine with two
  pending payloads.
\<close>

definition sample_fresh_vm :: VM where
  "sample_fresh_vm =
     \<lparr>DB = \<lparr>pending = Map.empty, durable = Map.empty\<rparr>,
      lastAccepted = ids_Empty, preferred = ids_Empty, mempool = [], toEngine = 0\<rparr>"

definition empty_db :: Database where
  "empty_db = \<lparr>pending = Map.empty, durable = Map.empty\<rparr>"

definition initialized_db :: Database where
  "initialized_db =
     \<lparr>pending = Map.empty,
      durable = [InitializedKey \<mapsto> FlagVal, LastAcceptedKey \<mapsto> IDVal [1],
                 StatusKey [1] \<mapsto> StatusVal Accepted,
                 BlockKey [1] \<mapsto> BlockVal sample_parent]\<rparr>"

definition sample_queue_vm :: VM where
  "sample_queue_vm = sample_vm\<lparr>mempool := [replicate 32 1, replicate 32 2]\<rparr>"

section \<open>Properties of \<open>Verify\<close>\<close>

text \<open>
  Past the check of the embedded core and the parent lookup, \<open>Verify\<close> is two
  comparisons followed by the write and the commit.
\<close>

lemma Verify_checks:
  assumes "core_Block_Verify e b = (False, None)" and "Parent vm b = Some p"
  shows "Verify e now b vm =
           (if sint (Timestamp b) < sint (Timestamp p) \<or> sint (now + 3600) \<le> sint (Timestamp b)
            then (Some (errors_New msg_hour_ahead), vm)
            else (fst (Commit e (snd (SaveBlock e (DB vm) b))),
                  vm\<lparr>DB := snd (Commit e (snd (SaveBlock e (DB vm) b)))\<rparr>))"
  using assms by (simp add: Verify_def split: prod.splits)

lemma sample_env_simps [simp]:
  "core_Initialize_err sample_env = None" "core_Verify_err sample_env b = None"
  "put_err sample_env k = None" "commit_err sample_env = None"
  "codec_Marshal sample_env b = Inr (PrntID b @ Data b @ [ucast (Timestamp b)])"
  "ComputeID sample_env bs = of_nat (length bs) # take 31 (rev bs)"
  by (simp_all add: sample_env_def)

lemma sample_FromString [simp]:
  "CB58_FromString sample_env s
     = (if CHR ''!'' \<in> set s then Inl ''bad checksum'' else Inr (map (\<lambda>c. of_nat (of_char c)) s))"
  by (simp add: sample_env_def)

lemma ids_Empty_not_short: "ids_Empty \<noteq> [x]"
proof
  assume "ids_Empty = [x]"
  then have "length ids_Empty = length [x]"
    by simp
  then show False
    by (simp add: ids_Empty_def)
qed

lemma sample_core_Verify: "core_Block_Verify sample_env (sample_child ts) = (False, None)"
  by (simp add: core_Block_Verify_def sample_child_def)

lemma sample_Parent: "Parent sample_vm (sample_child ts) = Some sample_parent"
  by (simp add: Parent_def GetBlock_def db_get_def sample_vm_def sample_child_def)

text \<open>
  Claim C1 says that \<open>Verify\<close> fails with the too-early error exactly when the block's
  timestamp is at most its parent's, so that a block with its parent's timestamp is
  rejected. The source compares with \<open><\<close>: a block that is not accepted yet, whose
  parent is found, whose timestamp equals the parent's and lies less than an hour ahead
  of the clock passes both checks, and \<open>Verify\<close> returns what the commit returns, which
  is success when the commit succeeds. The comment above \<open>Verify\<close> asks for
  \<open>b.parent.Timestamp < b.Timestamp\<close>.
\<close>

theorem Verify_accepts_parent_timestamp:
  assumes "core_Block_Verify e b = (False, None)" and "Parent vm b = Some p"
    and "Timestamp b = Timestamp p" and "sint (Timestamp b) < sint (now + 3600)"
    and "commit_err e = None"
  shows "fst (Verify e now b vm) = None"
  using assms by (simp add: Verify_checks Commit_def)

text \<open>At the clock reading 100, a block with timestamp 10 on a parent with timestamp 10.\<close>

theorem Verify_accepts_parent_timestamp_witness:
  "Timestamp (sample_child 10) = Timestamp sample_parent \<and>
   fst (Verify sample_env 100 (sample_child 10) sample_vm) = None"
proof -
  have "Timestamp (sample_child 10) = Timestamp sample_parent"
    by (simp add: sample_child_def sample_parent_def)
  moreover have "sint (Timestamp (sample_child 10)) < sint ((100::64 word) + 3600)"
    by (simp add: sample_child_def)
  moreover have "commit_err sample_env = None"
    by simp
  ultimately show ?thesis
    using Verify_accepts_parent_timestamp [OF sample_core_Verify sample_Parent]
    by simp
qed

text \<open>
  Claim C2 says that \<open>Verify\<close> fails with the too-late error exactly when the block's
  timestamp is greater than the clock plus 3600 seconds, so that a block exactly one
  hour ahead passes the upper bound. The source compares with \<open>>=\<close>: a block that is
  not accepted yet, whose parent is found and whose timestamp is exactly the clock plus
  3600 is rejected, with the message of the upper-bound check, and nothing is written.
  The comment above \<open>Verify\<close> asks for \<open>b.Timestamp <= [local time] + 1 hour\<close>.
\<close>

theorem Verify_rejects_exactly_one_hour_ahead:
  assumes "core_Block_Verify e b = (False, None)" and "Parent vm b = Some p"
    and "Timestamp b = now + 3600"
  shows "Verify e now b vm = (Some (errors_New msg_hour_ahead), vm)"
  using assms by (simp add: Verify_checks)

text \<open>At the clock reading 100, a block with timestamp 3700 on a parent with timestamp 10.\<close>

theorem Verify_rejects_exactly_one_hour_ahead_witness:
  "sint (Timestamp sample_parent) < sint (Timestamp (sample_child 3700)) \<and>
   sint (Timestamp (sample_child 3700)) = sint (100 :: 64 word) + 3600 \<and>
   Verify sample_env 100 (sample_child 3700) sample_vm
     = (Some (errors_New msg_hour_ahead), sample_vm)"
proof -
  have "Timestamp (sample_child 3700) = (100 :: 64 word) + 3600"
    by (simp add: sample_child_def)
  then have "Verify sample_env 100 (sample_child 3700) sample_vm
               = (Some (errors_New msg_hour_ahead), sample_vm)"
    using Verify_rejects_exactly_one_hour_ahead [OF sample_core_Verify sample_Parent]
    by blast
  then show ?thesis
    by (simp add: sample_child_def sample_parent_def)
qed

text \<open>
  What holds of the persistence step: when the write and the commit succeed, a valid
  block is in the durable layer when \<open>Verify\<close> returns success; when the commit
  fails, \<open>Verify\<close> returns the commit's error.
\<close>

lemma Verify_persists:
  assumes "core_Block_Verify e b = (False, None)" and "Parent vm b = Some p"
    and "sint (Timestamp p) \<le> sint (Timestamp b)"
    and "sint (Timestamp b) < sint (now + 3600)"
    and "put_err e (BlockKey (ID b)) = None" and "commit_err e = None"
  shows "fst (Verify e now b vm) = None \<and>
         durable (DB (snd (Verify e now b vm))) (BlockKey (ID b)) = Some (BlockVal b) \<and>
         pending (DB (snd (Verify e now b vm))) = Map.empty"
  using assms by (simp add: Verify_checks Commit_def SaveBlock_def db_put_def db_commit_def)

lemma Verify_commit_error:
  assumes "core_Block_Verify e b = (False, None)" and "Parent vm b = Some p"
    and "sint (Timestamp p) \<le> sint (Timestamp b)"
    and "sint (Timestamp b) < sint (now + 3600)"
    and "commit_err e = Some msg"
  shows "fst (Verify e now b vm) = Some (Foreign msg) \<and>
         durable (DB (snd (Verify e now b vm))) = durable (DB vm)"
  using assms
  by (simp add: Verify_checks Commit_def SaveBlock_def db_put_def split: option.splits)

text \<open>
  Claim C3 says that \<open>Verify\<close> on a valid block stores the block and commits before it
  returns, and that a failure of the write or of the commit makes it return a
  persistence error. The source drops the result of \<open>SaveBlock\<close> (\<open>Initialize\<close> checks
  it): when the write of a valid block fails and the commit succeeds, \<open>Verify\<close> returns
  success, and the database holds what it held before, committed.
\<close>

theorem Verify_drops_SaveBlock_error:
  assumes "core_Block_Verify e b = (False, None)" and "Parent vm b = Some p"
    and "sint (Timestamp p) \<le> sint (Timestamp b)"
    and "sint (Timestamp b) < sint (now + 3600)"
    and "put_err e (BlockKey (ID b)) = Some msg" and "commit_err e = None"
  shows "fst (SaveBlock e (DB vm) b) = Some (Foreign msg) \<and>
         Verify e now b vm = (None, vm\<lparr>DB := db_commit (DB vm)\<rparr>)"
  using assms by (simp add: Verify_checks Commit_def SaveBlock_def)

text \<open>
  With a database whose writes fail: a block with timestamp 50 on a parent with
  timestamp 10 at the clock reading 100 is reported valid and cannot be found after.
\<close>

theorem Verify_drops_SaveBlock_error_witness:
  "fst (SaveBlock failing_put_env (DB sample_vm) (sample_child 50)) = Some (Foreign ''disk full'') \<and>
   fst (Verify failing_put_env 100 (sample_child 50) sample_vm) = None \<and>
   GetBlock (snd (Verify failing_put_env 100 (sample_child 50) sample_vm)) (ID (sample_child 50))
     = None"
proof -
  have 1: "core_Block_Verify failing_put_env (sample_child 50) = (False, None)"
    by (simp add: core_Block_Verify_def failing_put_env_def sample_child_def)
  have 2: "sint (Timestamp sample_parent) \<le> sint (Timestamp (sample_child 50))"
    by (simp add: sample_child_def sample_parent_def)
  have 3: "sint (Timestamp (sample_child 50)) < sint ((100::64 word) + 3600)"
    by (simp add: sample_child_def)
  have 4: "put_err failing_put_env (BlockKey (ID (sample_child 50))) = Some ''disk full''"
    by (simp add: failing_put_env_def)
  have 5: "commit_err failing_put_env = None"
    by (simp add: failing_put_env_def)
  have 6: "GetBlock (sample_vm\<lparr>DB := db_commit (DB sample_vm)\<rparr>) (ID (sample_child 50)) = None"
    by (simp add: GetBlock_def db_get_def db_commit_def sample_vm_def sample_child_def)
  show ?thesis
    using Verify_drops_SaveBlock_error [OF 1 sample_Parent 2 3 4 5] 6 by simp
qed

text \<open>
  Claim C4: for a block whose status is Accepted (and on which the embedded core's
  check reports no error), \<open>Verify\<close> returns success at once: there is no parent
  lookup, no timestamp check, and the machine, its database included, is what it was.
\<close>

theorem Verify_Accepted_noop:
  assumes "status b = Accepted" and "core_Verify_err e b = None"
  shows "Verify e now b vm = (None, vm)"
  using assms by (simp add: Verify_def core_Block_Verify_def)

text \<open>
  The accepted sample block has a parent that the database does not hold, so that
  validation would fail on it; \<open>Verify\<close> succeeds.
\<close>

theorem Verify_Accepted_noop_witness:
  "status sample_parent = Accepted \<and>
   Parent sample_vm sample_parent = None \<and>
   Verify sample_env 100 sample_parent sample_vm = (None, sample_vm)"
proof -
  have "status sample_parent = Accepted"
    by (simp add: sample_parent_def)
  moreover have "Parent sample_vm sample_parent = None"
    using ids_Empty_not_short [of 1]
    by (simp add: Parent_def GetBlock_def db_get_def sample_vm_def sample_parent_def)
  ultimately show ?thesis
    using Verify_Accepted_noop [of sample_parent sample_env 100 sample_vm] by simp
qed

section \<open>Properties of \<open>Initialize\<close>\<close>

lemma NewBlock_Inr:
  "NewBlock e p d t = Inr b \<longleftrightarrow>
     (\<exists>bs. codec_Marshal e \<lparr>PrntID = p, ID = ids_Empty, Bytes = [], status = Unverified,
                             Data = d, Timestamp = t\<rparr> = Inr bs \<and>
           b = \<lparr>PrntID = p, ID = ComputeID e bs, Bytes = bs, status = Unverified,
                Data = d, Timestamp = t\<rparr>)"
  by (auto simp: NewBlock_def Marshal_def core_Block_Initialize_def Let_def split: sum.splits)

lemma NewBlock_Inl:
  "NewBlock e p d t = Inl err \<longleftrightarrow>
     (\<exists>msg. codec_Marshal e \<lparr>PrntID = p, ID = ids_Empty, Bytes = [], status = Unverified,
                             Data = d, Timestamp = t\<rparr> = Inl msg \<and> err = Foreign msg)"
  by (auto simp: NewBlock_def Marshal_def core_Block_Initialize_def Let_def split: sum.splits)

lemma copy_into_array_short:
  "length src \<le> n \<Longrightarrow> copy_into_array n src = src @ replicate (n - length src) 0"
  by (simp add: copy_into_array_def)

lemma length_copy_into_array: "length (copy_into_array n src) = n"
  by (simp add: copy_into_array_def)

text \<open>The embedded core on a database without the flag, and on an initialised one.\<close>

lemma SnowmanVM_Initialize_fresh:
  assumes "core_Initialize_err e = None" and "db_get db InitializedKey = None"
  shows "SnowmanVM_Initialize e db vm = (None, vm\<lparr>DB := db\<rparr>)"
  using assms by (simp add: SnowmanVM_Initialize_def DBInitialized_def)

lemma SnowmanVM_Initialize_resumed:
  assumes "core_Initialize_err e = None" and "db_get db InitializedKey \<noteq> None"
    and "db_get db LastAcceptedKey = Some (IDVal i)"
  shows "SnowmanVM_Initialize e db vm = (None, vm\<lparr>DB := db, lastAccepted := i, preferred := i\<rparr>)"
  using assms by (auto simp: SnowmanVM_Initialize_def DBInitialized_def GetLastAccepted_def)

lemma Initialize_length_check:
  assumes "core_Initialize_err e = None" and "db_get db InitializedKey = None"
  shows "(fst (Initialize e db g vm)
            = Some (errors_New ''genesis data should be bytes (max length 32)''))
           = (32 < length g)"
  using assms
  by (auto simp: Initialize_def SnowmanVM_Initialize_fresh DBInitialized_def NewBlock_Inl
        SaveBlock_def Commit_def Let_def
      split: sum.splits option.splits prod.splits)

lemma Initialize_too_long:
  assumes "core_Initialize_err e = None" and "db_get db InitializedKey = None"
    and "32 < length g"
  shows "Initialize e db g vm
           = (Some (errors_New ''genesis data should be bytes (max length 32)''), vm\<lparr>DB := db\<rparr>)"
  using assms
  by (simp add: Initialize_def SnowmanVM_Initialize_fresh DBInitialized_def)

lemma Initialize_genesis:
  assumes "core_Initialize_err e = None" and "db_get db InitializedKey = None"
    and "length g \<le> 32"
    and "codec_Marshal e \<lparr>PrntID = ids_Empty, ID = ids_Empty, Bytes = [], status = Unverified,
                           Data = g @ replicate (32 - length g) 0, Timestamp = 0\<rparr> = Inr bs"
    and "put_err e (BlockKey (ComputeID e bs)) = None"
  shows "lastAccepted (snd (Initialize e db g vm)) = ComputeID e bs \<and>
         preferred (snd (Initialize e db g vm)) = preferred vm \<and>
         GetBlock (snd (Initialize e db g vm)) (ComputeID e bs)
           = Some \<lparr>PrntID = ids_Empty, ID = ComputeID e bs, Bytes = bs, status = Unverified,
                   Data = g @ replicate (32 - length g) 0, Timestamp = 0\<rparr> \<and>
         GetStatus (snd (Initialize e db g vm)) (ComputeID e bs) = Some Accepted \<and>
         DBInitialized (snd (Initialize e db g vm)) \<and>
         (commit_err e = None \<longrightarrow> fst (Initialize e db g vm) = None)"
  using assms
  by (auto simp: Initialize_def SnowmanVM_Initialize_fresh DBInitialized_def NewBlock_def Marshal_def
        core_Block_Initialize_def copy_into_array_short dataLen_def
        SaveBlock_def Commit_def Let_def Accept_def SetDBInitialized_def GetBlock_def GetStatus_def
        db_get_def db_put_def db_commit_def
      split: sum.splits option.splits prod.splits)

text \<open>
  The failures of the collaborators on the bootstrap path: the error is returned, and
  neither a genesis block nor the chain-state fields are set.
\<close>

lemma Initialize_Marshal_error:
  assumes "core_Initialize_err e = None" and "db_get db InitializedKey = None"
    and "length g \<le> 32"
    and "codec_Marshal e \<lparr>PrntID = ids_Empty, ID = ids_Empty, Bytes = [], status = Unverified,
                           Data = g @ replicate (32 - length g) 0, Timestamp = 0\<rparr> = Inl msg"
  shows "Initialize e db g vm = (Some (Foreign msg), vm\<lparr>DB := db\<rparr>)"
  using assms
  by (simp add: Initialize_def SnowmanVM_Initialize_fresh DBInitialized_def NewBlock_def Marshal_def
        copy_into_array_short dataLen_def)

lemma Initialize_SaveBlock_error:
  assumes "core_Initialize_err e = None" and "db_get db InitializedKey = None"
    and "length g \<le> 32"
    and "codec_Marshal e \<lparr>PrntID = ids_Empty, ID = ids_Empty, Bytes = [], status = Unverified,
                           Data = g @ replicate (32 - length g) 0, Timestamp = 0\<rparr> = Inr bs"
    and "put_err e (BlockKey (ComputeID e bs)) = Some msg"
  shows "Initialize e db g vm = (Some (Foreign msg), vm\<lparr>DB := db\<rparr>)"
  using assms
  by (simp add: Initialize_def SnowmanVM_Initialize_fresh DBInitialized_def NewBlock_def Marshal_def
        core_Block_Initialize_def copy_into_array_short dataLen_def SaveBlock_def)

text \<open>The sample bootstrap: 32 zero bytes as genesis payload on the empty database.\<close>

lemma sample_genesis_bytes:
  "codec_Marshal sample_env
     \<lparr>PrntID = ids_Empty, ID = ids_Empty, Bytes = [], status = Unverified,
        Data = replicate 32 0 @ replicate (32 - length (replicate 32 (0::byte))) 0,
        Timestamp = 0\<rparr> = Inr (replicate 65 0)"
proof -
  have "replicate 32 (0::byte) @ (replicate 32 0 @ replicate (32 - length (replicate 32 (0::byte))) 0)
          @ [ucast (0::64 word)] = replicate 65 0"
    by code_simp
  then show ?thesis
    by (simp add: ids_Empty_def)
qed

lemma sample_genesis_id: "ComputeID sample_env (replicate 65 0) = 65 # replicate 31 0"
proof -
  have "of_nat (length (replicate 65 (0::byte))) # take 31 (rev (replicate 65 (0::byte)))
          = 65 # replicate 31 0"
    by code_simp
  then show ?thesis
    by simp
qed

lemma sample_genesis_id_not_Empty: "65 # replicate 31 0 \<noteq> ids_Empty"
proof
  assume "65 # replicate 31 0 = ids_Empty"
  then have "hd (65 # replicate 31 (0::byte)) = hd (replicate 32 0)"
    by (simp add: ids_Empty_def)
  then show False
    by simp
qed

lemma empty_db_fresh: "db_get empty_db InitializedKey = None"
  by (simp add: db_get_def empty_db_def)

lemma sample_pad:
  "replicate 32 0 @ replicate (32 - length (replicate 32 (0::byte))) 0 = replicate 32 (0::byte)"
  by (simp only: length_replicate diff_self_eq_0 replicate_0 append_Nil2)

lemma sample_Initialize_first:
  "fst (Initialize sample_env empty_db (replicate 32 0) sample_fresh_vm) = None \<and>
   lastAccepted (snd (Initialize sample_env empty_db (replicate 32 0) sample_fresh_vm))
     = 65 # replicate 31 0 \<and>
   preferred (snd (Initialize sample_env empty_db (replicate 32 0) sample_fresh_vm)) = ids_Empty"
proof -
  have len: "length (replicate 32 (0::byte)) \<le> 32"
    by simp
  have put: "put_err sample_env (BlockKey (ComputeID sample_env (replicate 65 0))) = None"
    by simp
  have pref: "preferred sample_fresh_vm = ids_Empty"
    by (simp add: sample_fresh_vm_def)
  note genesis =
    Initialize_genesis [OF _ empty_db_fresh len sample_genesis_bytes put,
      of sample_fresh_vm, unfolded sample_genesis_id pref]
  then show ?thesis
    by simp
qed

text \<open>
  Claim C5 says that, with the flag unset, \<open>Initialize\<close> fails with the genesis-data
  error exactly when the payload is longer than 32 bytes, and otherwise constructs the
  genesis block (empty parent, timestamp 0, the payload padded to 32 bytes), marks it
  Accepted and sets \<open>lastAccepted = preferred =\<close> its identity. All of it holds but the
  last: when the codec serialises the genesis block (to \<open>bs\<close>) and the database takes the
  write, the block is stored with the payload followed by zero bytes, its recorded
  status is Accepted and \<open>lastAccepted\<close> is its identity, while \<open>preferred\<close> is what it
  was before the call. The comment in \<open>Initialize\<close> says of the call of \<open>Accept\<close> that it
  sets \<open>vm.lastAccepted\<close> and \<open>vm.preferred\<close> to the genesis block, and on an
  initialised database the machine does start with \<open>preferred = lastAccepted\<close>.
\<close>

theorem Initialize_bootstrap_keeps_preferred:
  assumes "core_Initialize_err e = None" and "db_get db InitializedKey = None"
  shows "(fst (Initialize e db g vm)
            = Some (errors_New ''genesis data should be bytes (max length 32)'')) = (32 < length g) \<and>
         (\<forall>bs. length g \<le> 32 \<longrightarrow>
               codec_Marshal e \<lparr>PrntID = ids_Empty, ID = ids_Empty, Bytes = [], status = Unverified,
                                 Data = g @ replicate (32 - length g) 0, Timestamp = 0\<rparr> = Inr bs \<longrightarrow>
               put_err e (BlockKey (ComputeID e bs)) = None \<longrightarrow>
               lastAccepted (snd (Initialize e db g vm)) = ComputeID e bs \<and>
               preferred (snd (Initialize e db g vm)) = preferred vm \<and>
               GetBlock (snd (Initialize e db g vm)) (ComputeID e bs)
                 = Some \<lparr>PrntID = ids_Empty, ID = ComputeID e bs, Bytes = bs, status = Unverified,
                         Data = g @ replicate (32 - length g) 0, Timestamp = 0\<rparr> \<and>
               GetStatus (snd (Initialize e db g vm)) (ComputeID e bs) = Some Accepted \<and>
               DBInitialized (snd (Initialize e db g vm)) \<and>
               (commit_err e = None \<longrightarrow> fst (Initialize e db g vm) = None))"
  using Initialize_length_check [OF assms] Initialize_genesis [OF assms]
  by blast

text \<open>
  The scenario of the spec: a genesis payload of 32 zero bytes on an empty database, on
  a machine that has not started (its \<open>preferred\<close> is the empty identity). With the toy
  codec the genesis block is 65 zero bytes, and its identity is 65 followed by 31 zero
  bytes. \<open>Initialize\<close> succeeds, \<open>lastAccepted\<close> is the genesis identity and \<open>preferred\<close> is
  still the empty identity.
\<close>

theorem Initialize_bootstrap_keeps_preferred_witness:
  "fst (Initialize sample_env empty_db (replicate 32 0) sample_fresh_vm) = None \<and>
   lastAccepted (snd (Initialize sample_env empty_db (replicate 32 0) sample_fresh_vm))
     = 65 # replicate 31 0 \<and>
   preferred (snd (Initialize sample_env empty_db (replicate 32 0) sample_fresh_vm))
     = ids_Empty \<and>
   preferred (snd (Initialize sample_env empty_db (replicate 32 0) sample_fresh_vm))
     \<noteq> lastAccepted (snd (Initialize sample_env empty_db (replicate 32 0) sample_fresh_vm)) \<and>
   GetStatus (snd (Initialize sample_env empty_db (replicate 32 0) sample_fresh_vm))
       (65 # replicate 31 0) = Some Accepted \<and>
   GetBlock (snd (Initialize sample_env empty_db (replicate 32 0) sample_fresh_vm))
       (65 # replicate 31 0)
     = Some \<lparr>PrntID = ids_Empty, ID = 65 # replicate 31 0, Bytes = replicate 65 0,
             status = Unverified, Data = replicate 32 0, Timestamp = 0\<rparr>"
proof -
  have core: "core_Initialize_err sample_env = None"
    by simp
  have len: "length (replicate 32 (0::byte)) \<le> 32"
    by simp
  have put: "put_err sample_env (BlockKey (ComputeID sample_env (replicate 65 0))) = None"
    by simp
  have pref: "preferred sample_fresh_vm = ids_Empty"
    by (simp add: sample_fresh_vm_def)
  note genesis =
    Initialize_bootstrap_keeps_preferred [OF core empty_db_fresh, of "replicate 32 0" sample_fresh_vm,
      THEN conjunct2, rule_format, OF len sample_genesis_bytes put,
      unfolded sample_genesis_id sample_pad pref]
  have "ids_Empty \<noteq> 65 # replicate 31 0"
    using sample_genesis_id_not_Empty by (rule not_sym)
  with genesis show ?thesis
    by (simp only: sample_env_simps simp_thms)
qed

text \<open>
  \<open>Initialize\<close> on an initialised database builds no genesis block: it returns what the
  embedded core resumed, or the core's error when the record of the last accepted
  block is missing.
\<close>

lemma Initialize_resumed:
  assumes "core_Initialize_err e = None" and "db_get db InitializedKey \<noteq> None"
    and "db_get db LastAcceptedKey = Some (IDVal i)"
  shows "Initialize e db g vm = (None, vm\<lparr>DB := db, lastAccepted := i, preferred := i\<rparr>)"
  using assms
  by (auto simp: Initialize_def SnowmanVM_Initialize_resumed DBInitialized_def)

lemma Initialize_resumed_missing:
  assumes "core_Initialize_err e = None" and "db_get db InitializedKey \<noteq> None"
    and "db_get db LastAcceptedKey = None"
  shows "Initialize e db g vm = (Some errNotFound, vm\<lparr>DB := db\<rparr>)"
  using assms
  by (auto simp: Initialize_def SnowmanVM_Initialize_def DBInitialized_def GetLastAccepted_def)

text \<open>
  On the initialised sample database a machine that has not started resumes with
  \<open>preferred = lastAccepted\<close>, the identity of the stored block.
\<close>

lemma sample_Initialize_resumed:
  "Initialize sample_env initialized_db [] sample_fresh_vm
     = (None, sample_fresh_vm\<lparr>DB := initialized_db, lastAccepted := [1], preferred := [1]\<rparr>)"
proof -
  have "db_get initialized_db InitializedKey \<noteq> None"
    and "db_get initialized_db LastAcceptedKey = Some (IDVal [1])"
    by (simp_all add: db_get_def initialized_db_def)
  then show ?thesis
    using Initialize_resumed [of sample_env initialized_db "[1]"] by simp
qed

lemma Initialize_success_record:
  assumes "Initialize e db g vm = (None, vm1)"
  shows "core_Initialize_err e = None \<and> db_get (DB vm1) InitializedKey \<noteq> None \<and>
         db_get (DB vm1) LastAcceptedKey = Some (IDVal (lastAccepted vm1))"
  using assms
  by (auto simp: Initialize_def SnowmanVM_Initialize_def DBInitialized_def GetLastAccepted_def
        SaveBlock_def Commit_def Let_def Accept_def SetDBInitialized_def
        db_get_def db_put_def db_commit_def
      split: sum.splits option.splits prod.splits if_splits val.splits)

lemma Initialize_success_preferred:
  assumes "Initialize e db g vm = (None, vm1)" and "db_get db InitializedKey = None"
  shows "preferred vm1 = preferred vm"
  using assms
  by (auto simp: Initialize_def SnowmanVM_Initialize_def DBInitialized_def
        SaveBlock_def Commit_def Let_def Accept_def SetDBInitialized_def
      split: sum.splits option.splits prod.splits if_splits)

text \<open>
  Claim C6 says that a second call of \<open>Initialize\<close>, on the persisted state the first
  one left, bootstraps nothing, returns no error and leaves \<open>lastAccepted\<close> and
  \<open>preferred\<close> as they were after the first call. After a first call that returned
  success, a second call (on the same machine or, as \<open>vmR\<close>, on a restarted one, with
  any genesis payload and an embedded core that initialises) does return success
  without a bootstrap, and \<open>lastAccepted\<close> is what the first call left; but it sets
  \<open>preferred\<close> to \<open>lastAccepted\<close>, whereas a first call that bootstrapped left \<open>preferred\<close>
  as it found it. This is the defect of claim C5 seen from the second call.
\<close>

theorem Initialize_second_call_sets_preferred:
  assumes "Initialize e db g vm = (None, vm1)" and "core_Initialize_err e2 = None"
  shows "Initialize e2 (DB vm1) g2 vmR
           = (None, vmR\<lparr>DB := DB vm1, lastAccepted := lastAccepted vm1,
                        preferred := lastAccepted vm1\<rparr>) \<and>
         (db_get db InitializedKey = None \<longrightarrow> preferred vm1 = preferred vm)"
proof -
  from assms(1) have "db_get (DB vm1) InitializedKey \<noteq> None"
    and "db_get (DB vm1) LastAcceptedKey = Some (IDVal (lastAccepted vm1))"
    using Initialize_success_record by blast+
  with assms(2) have "Initialize e2 (DB vm1) g2 vmR
           = (None, vmR\<lparr>DB := DB vm1, lastAccepted := lastAccepted vm1,
                        preferred := lastAccepted vm1\<rparr>)"
    by (rule Initialize_resumed)
  moreover have "db_get db InitializedKey = None \<longrightarrow> preferred vm1 = preferred vm"
    using assms(1) Initialize_success_preferred by blast
  ultimately show ?thesis
    by (rule conjI)
qed

text \<open>
  On the empty database and the machine that has not started, the first call leaves
  \<open>preferred\<close> at the empty identity; the second call, on the machine and the database
  the first one left, returns success and moves \<open>preferred\<close> to the genesis identity.
\<close>

theorem Initialize_second_call_sets_preferred_witness:
  "fst (Initialize sample_env empty_db (replicate 32 0) sample_fresh_vm) = None \<and>
   preferred (snd (Initialize sample_env empty_db (replicate 32 0) sample_fresh_vm)) = ids_Empty \<and>
   fst (Initialize sample_env
          (DB (snd (Initialize sample_env empty_db (replicate 32 0) sample_fresh_vm)))
          (replicate 32 0)
          (snd (Initialize sample_env empty_db (replicate 32 0) sample_fresh_vm))) = None \<and>
   lastAccepted (snd (Initialize sample_env
          (DB (snd (Initialize sample_env empty_db (replicate 32 0) sample_fresh_vm)))
          (replicate 32 0)
          (snd (Initialize sample_env empty_db (replicate 32 0) sample_fresh_vm))))
     = 65 # replicate 31 0 \<and>
   preferred (snd (Initialize sample_env
          (DB (snd (Initialize sample_env empty_db (replicate 32 0) sample_fresh_vm)))
          (replicate 32 0)
          (snd (Initialize sample_env empty_db (replicate 32 0) sample_fresh_vm))))
     = 65 # replicate 31 0 \<and>
   65 # replicate 31 0 \<noteq> ids_Empty"
proof -
  let ?first = "Initialize sample_env empty_db (replicate 32 0) sample_fresh_vm"
  have first: "?first = (None, snd ?first)"
    using sample_Initialize_first by (simp add: prod_eq_iff)
  have core: "core_Initialize_err sample_env = None"
    by simp
  note second =
    Initialize_second_call_sets_preferred [OF first core, of "replicate 32 0" "snd ?first",
      THEN conjunct1]
  from second sample_Initialize_first sample_genesis_id_not_Empty show ?thesis
    by simp
qed

section \<open>Properties of the mempool and \<open>BuildBlock\<close>\<close>

lemma BuildBlock_Nil:
  "mempool vm = [] \<Longrightarrow>
   BuildBlock e now vm = (Inl (errors_New ''there is no block to propose''), vm)"
  by (simp add: BuildBlock_def)

lemma BuildBlock_Cons_snd:
  "mempool vm = v # rest \<Longrightarrow>
   snd (BuildBlock e now vm)
     = vm\<lparr>mempool := rest, toEngine := (if rest = [] then toEngine vm else Suc (toEngine vm))\<rparr>"
  by (simp add: BuildBlock_def Let_def NotifyBlockReady_def split: sum.splits)

lemma BuildBlock_Cons_fst:
  "mempool vm = v # rest \<Longrightarrow> fst (BuildBlock e now vm) = NewBlock e (preferred vm) v now"
  by (simp add: BuildBlock_def Let_def split: sum.splits)

lemma BuildBlock_EmptyMempool:
  "(fst (BuildBlock e now vm) = Inl (errors_New ''there is no block to propose''))
     = (mempool vm = [])"
  by (cases "mempool vm") (auto simp: BuildBlock_Nil BuildBlock_Cons_fst NewBlock_Inl)

text \<open>
  Claim C7: \<open>BuildBlock\<close> fails with the empty-mempool error exactly when the mempool is
  empty, and then changes nothing. On a mempool \<open>v # rest\<close> it leaves \<open>rest\<close> in the
  mempool and signals readiness once more exactly when \<open>rest\<close> is not empty; when the
  codec serialises the new block (to \<open>bs\<close>), the block returned has the preferred tip as
  parent, \<open>v\<close> as data and the clock reading as timestamp.
\<close>

theorem BuildBlock_spec:
  "(fst (BuildBlock e now vm) = Inl (errors_New ''there is no block to propose''))
     = (mempool vm = []) \<and>
   (mempool vm = [] \<longrightarrow> snd (BuildBlock e now vm) = vm) \<and>
   (\<forall>v rest. mempool vm = v # rest \<longrightarrow>
      snd (BuildBlock e now vm)
        = vm\<lparr>mempool := rest,
              toEngine := (if rest = [] then toEngine vm else Suc (toEngine vm))\<rparr> \<and>
      (\<forall>bs. codec_Marshal e \<lparr>PrntID = preferred vm, ID = ids_Empty, Bytes = [],
                               status = Unverified, Data = v, Timestamp = now\<rparr> = Inr bs \<longrightarrow>
         fst (BuildBlock e now vm)
           = Inr \<lparr>PrntID = preferred vm, ID = ComputeID e bs, Bytes = bs, status = Unverified,
                  Data = v, Timestamp = now\<rparr>))"
  using BuildBlock_EmptyMempool [of e now vm]
  by (auto simp: BuildBlock_Nil BuildBlock_Cons_snd BuildBlock_Cons_fst NewBlock_Inr)

text \<open>
  On the sample machine with an empty mempool, and with two pending payloads at the
  clock reading 100.
\<close>

theorem BuildBlock_spec_witness:
  "fst (BuildBlock sample_env 100 sample_vm) = Inl (errors_New ''there is no block to propose'') \<and>
   snd (BuildBlock sample_env 100 sample_vm) = sample_vm \<and>
   snd (BuildBlock sample_env 100 sample_queue_vm)
     = sample_queue_vm\<lparr>mempool := [replicate 32 2], toEngine := Suc 0\<rparr> \<and>
   (\<exists>bs. fst (BuildBlock sample_env 100 sample_queue_vm)
            = Inr \<lparr>PrntID = [1], ID = ComputeID sample_env bs, Bytes = bs, status = Unverified,
                   Data = replicate 32 1, Timestamp = 100\<rparr>)"
proof -
  have empty: "mempool sample_vm = []"
    by (simp add: sample_vm_def)
  have queue: "mempool sample_queue_vm = replicate 32 1 # [replicate 32 2]"
    by (simp add: sample_queue_vm_def)
  have pref: "preferred sample_queue_vm = [1]" and eng: "toEngine sample_queue_vm = 0"
    by (simp_all add: sample_queue_vm_def sample_vm_def)
  note spec0 = BuildBlock_spec [of sample_env 100 sample_vm]
  note spec2 = BuildBlock_spec [of sample_env 100 sample_queue_vm,
      THEN conjunct2, THEN conjunct2, rule_format, OF queue]
  have "fst (BuildBlock sample_env 100 sample_vm)
          = Inl (errors_New ''there is no block to propose'')"
    using spec0 empty by blast
  moreover have "snd (BuildBlock sample_env 100 sample_vm) = sample_vm"
    using spec0 empty by blast
  moreover have "snd (BuildBlock sample_env 100 sample_queue_vm)
     = sample_queue_vm\<lparr>mempool := [replicate 32 2], toEngine := Suc 0\<rparr>"
    using spec2 [THEN conjunct1] by (simp add: eng)
  moreover have "\<exists>bs. fst (BuildBlock sample_env 100 sample_queue_vm)
            = Inr \<lparr>PrntID = [1], ID = ComputeID sample_env bs, Bytes = bs, status = Unverified,
                   Data = replicate 32 1, Timestamp = 100\<rparr>"
    using spec2 [THEN conjunct2] by (simp add: pref)
  ultimately show ?thesis
    by (intro conjI)
qed

lemma BuildBlock_pop:
  assumes "mempool vm = v # rest" and "\<forall>b. \<exists>bs. codec_Marshal e b = Inr bs"
  shows "\<exists>blk vm'. BuildBlock e now vm = (Inr blk, vm') \<and> Data blk = v \<and>
           PrntID blk = preferred vm \<and> Timestamp blk = now \<and>
           mempool vm' = rest \<and> preferred vm' = preferred vm \<and> lastAccepted vm' = lastAccepted vm"
proof -
  from assms(2) obtain bs where
    "codec_Marshal e \<lparr>PrntID = preferred vm, ID = ids_Empty, Bytes = [],
                       status = Unverified, Data = v, Timestamp = now\<rparr> = Inr bs"
    by blast
  then have "fst (BuildBlock e now vm)
               = Inr \<lparr>PrntID = preferred vm, ID = ComputeID e bs, Bytes = bs, status = Unverified,
                      Data = v, Timestamp = now\<rparr>"
    using assms(1)
    by (simp add: BuildBlock_Cons_fst NewBlock_def Marshal_def core_Block_Initialize_def)
  moreover note BuildBlock_Cons_snd [OF assms(1), of e now]
  ultimately show ?thesis
    by (cases "BuildBlock e now vm") auto
qed

lemma mempool_proposeBlock: "mempool (proposeBlock d vm) = mempool vm @ [d]"
  by (simp add: proposeBlock_def NotifyBlockReady_def)

text \<open>
  Claim C8: on a machine whose mempool is empty, with a codec that serialises every
  block, after \<open>proposeBlock\<close> of \<open>d1\<close>, \<open>d2\<close> and \<open>d3\<close> in that order three successive
  calls of \<open>BuildBlock\<close> (at any clock readings) each return a block, with data \<open>d1\<close>,
  then \<open>d2\<close>, then \<open>d3\<close>, and leave the mempool empty.
\<close>

theorem mempool_FIFO:
  assumes "mempool vm = []" and "\<forall>b. \<exists>bs. codec_Marshal e b = Inr bs"
  shows "\<exists>b1 vm1 b2 vm2 b3 vm3.
           BuildBlock e t1 (proposeBlock d3 (proposeBlock d2 (proposeBlock d1 vm))) = (Inr b1, vm1) \<and>
           BuildBlock e t2 vm1 = (Inr b2, vm2) \<and>
           BuildBlock e t3 vm2 = (Inr b3, vm3) \<and>
           Data b1 = d1 \<and> Data b2 = d2 \<and> Data b3 = d3 \<and> mempool vm3 = []"
proof -
  have "mempool (proposeBlock d3 (proposeBlock d2 (proposeBlock d1 vm))) = d1 # [d2, d3]"
    using assms(1) by (simp add: mempool_proposeBlock)
  from BuildBlock_pop [OF this assms(2), of t1] obtain b1 vm1 where
    1: "BuildBlock e t1 (proposeBlock d3 (proposeBlock d2 (proposeBlock d1 vm))) = (Inr b1, vm1)"
      "Data b1 = d1" "mempool vm1 = d2 # [d3]"
    by blast
  from BuildBlock_pop [OF 1(3) assms(2), of t2] obtain b2 vm2 where
    2: "BuildBlock e t2 vm1 = (Inr b2, vm2)" "Data b2 = d2" "mempool vm2 = d3 # []"
    by blast
  from BuildBlock_pop [OF 2(3) assms(2), of t3] obtain b3 vm3 where
    3: "BuildBlock e t3 vm2 = (Inr b3, vm3)" "Data b3 = d3" "mempool vm3 = []"
    by blast
  from 1 2 3 show ?thesis
    by blast
qed

text \<open>Three payloads on the sample machine, built at the clock readings 101, 102, 103.\<close>

theorem mempool_FIFO_witness:
  "\<exists>b1 vm1 b2 vm2 b3 vm3.
     BuildBlock sample_env 101
       (proposeBlock (replicate 32 3) (proposeBlock (replicate 32 2)
          (proposeBlock (replicate 32 1) sample_vm))) = (Inr b1, vm1) \<and>
     BuildBlock sample_env 102 vm1 = (Inr b2, vm2) \<and>
     BuildBlock sample_env 103 vm2 = (Inr b3, vm3) \<and>
     Data b1 = replicate 32 1 \<and> Data b2 = replicate 32 2 \<and> Data b3 = replicate 32 3 \<and>
     mempool vm3 = []"
proof -
  have empty: "mempool sample_vm = []"
    by (simp add: sample_vm_def)
  have total: "\<forall>b. \<exists>bs. codec_Marshal sample_env b = Inr bs"
    by simp
  show ?thesis
    by (rule mempool_FIFO [OF empty total])
qed

text \<open>
  Claim C9: whatever the machine, the clock and the environment, and whether
  \<open>BuildBlock\<close> returns a block or an error, \<open>preferred\<close> and \<open>lastAccepted\<close> are after
  the call what they were before.
\<close>

theorem BuildBlock_frame:
  "preferred (snd (BuildBlock e now vm)) = preferred vm \<and>
   lastAccepted (snd (BuildBlock e now vm)) = lastAccepted vm"
  by (cases "mempool vm") (simp_all add: BuildBlock_Nil BuildBlock_Cons_snd)

theorem BuildBlock_frame_witness:
  "preferred (snd (BuildBlock sample_env 100 sample_queue_vm)) = [1] \<and>
   lastAccepted (snd (BuildBlock sample_env 100 sample_queue_vm)) = [1]"
  using BuildBlock_frame [of sample_env 100 sample_queue_vm]
  by (simp add: sample_queue_vm_def sample_vm_def)

section \<open>Properties of the API's \<open>ProposeBlock\<close>\<close>

text \<open>
  Claim C10: when the decoder accepts the string and yields exactly 32 bytes,
  \<open>ProposeBlock\<close> returns success, sets the reply's field, appends those 32 bytes to the
  mempool and signals readiness; in every other case (the decoder refuses the string,
  or yields another number of bytes) it returns \<open>errBadData\<close> and leaves the reply and
  the machine, the mempool included, as they were.
\<close>

theorem ProposeBlock_spec:
  "(\<forall>bs. CB58_FromString e s = Inr bs \<longrightarrow> length bs = 32 \<longrightarrow>
      ProposeBlock e s r vm
        = (None, True, vm\<lparr>mempool := mempool vm @ [bs], toEngine := Suc (toEngine vm)\<rparr>)) \<and>
   ((\<nexists>bs. CB58_FromString e s = Inr bs \<and> length bs = 32) \<longrightarrow>
      ProposeBlock e s r vm = (Some errBadData, r, vm))"
  by (auto simp: ProposeBlock_def FromString_def proposeBlock_def NotifyBlockReady_def
        copy_into_array_def dataLen_def Let_def
      split: sum.splits)

text \<open>
  With the toy decoder: a string of 32 characters is accepted, a string of 3 characters
  decodes to 3 bytes and is refused, and a string the decoder rejects is refused.
\<close>

theorem ProposeBlock_spec_witness:
  "ProposeBlock sample_env ''abcdefghijklmnopqrstuvwxyzABCDEF'' False sample_vm
     = (None, True,
        sample_vm\<lparr>mempool := [map (\<lambda>c. of_nat (of_char c)) ''abcdefghijklmnopqrstuvwxyzABCDEF''],
                  toEngine := Suc 0\<rparr>) \<and>
   ProposeBlock sample_env ''abc'' False sample_vm = (Some errBadData, False, sample_vm) \<and>
   ProposeBlock sample_env ''abcdefghijklmnopqrstuvwxyzABCDE!'' False sample_vm
     = (Some errBadData, False, sample_vm)"
proof -
  have ok: "CB58_FromString sample_env ''abcdefghijklmnopqrstuvwxyzABCDEF''
              = Inr (map (\<lambda>c. of_nat (of_char c)) ''abcdefghijklmnopqrstuvwxyzABCDEF'')"
    by simp
  have len: "length (map (\<lambda>c. of_nat (of_char c) :: byte) ''abcdefghijklmnopqrstuvwxyzABCDEF'') = 32"
    by simp
  have short: "\<nexists>bs. CB58_FromString sample_env ''abc'' = Inr bs \<and> length bs = 32"
    by auto
  have bad: "\<nexists>bs. CB58_FromString sample_env ''abcdefghijklmnopqrstuvwxyzABCDE!'' = Inr bs
               \<and> length bs = 32"
    by simp
  have mp: "mempool sample_vm = []" and eng: "toEngine sample_vm = 0"
    by (simp_all add: sample_vm_def)
  note accept =
    ProposeBlock_spec [of sample_env "''abcdefghijklmnopqrstuvwxyzABCDEF''" False sample_vm,
      THEN conjunct1, rule_format, OF ok len]
  note reject1 =
    ProposeBlock_spec [of sample_env "''abc''" False sample_vm, THEN conjunct2, rule_format, OF short]
  note reject2 =
    ProposeBlock_spec [of sample_env "''abcdefghijklmnopqrstuvwxyzABCDE!''" False sample_vm,
      THEN conjunct2, rule_format, OF bad]
  from accept reject1 reject2 show ?thesis
    by (simp only: mp eng append_Nil simp_thms)
qed

end
